theory Spec2Isabelle
  imports Main "HOL-Library.Word"
begin

section \<open>Serial2Oled: serial command dispatcher, time source and cooperative loop\<close>

text \<open>
  A shallow embedding of \<^verbatim>\<open>Serial2Oled-scoll_v4.ino\<close>. The sketch keeps its state in
  global variables; here they are the fields of one record that every function takes
  and returns. Readings of the hardware (the system clock, the millisecond counter, the
  glyph-width measurement of the display library, the radio status) are the fields of an
  environment record.
\<close>

subsection \<open>The Arduino String operations the sketch calls\<close>

text \<open>
  \<^verbatim>\<open>String::startsWith\<close> compares the first characters of the buffer with the prefix and
  is false when the string is shorter than the prefix.
\<close>

definition startsWith :: "string \<Rightarrow> string \<Rightarrow> bool" where
  "startsWith s p = (length p \<le> length s \<and> take (length p) s = p)"

text \<open>\<^verbatim>\<open>String::charAt\<close> returns the character 0 for an index past the end.\<close>

definition charAt :: "string \<Rightarrow> nat \<Rightarrow> char" where
  "charAt s i = (if i < length s then s ! i else CHR 0x00)"

text \<open>
  \<^verbatim>\<open>String::substring(left)\<close> and \<^verbatim>\<open>String::substring(left, right)\<close>: the bounds are
  swapped when out of order, a start past the end gives the empty string, and the end is
  cut at the length.
\<close>

definition substring2 :: "string \<Rightarrow> nat \<Rightarrow> nat \<Rightarrow> string" where
  "substring2 s left right =
     (let l = (if left > right then right else left);
          r = (if left > right then left else right)
      in if l \<ge> length s then []
         else take ((if r > length s then length s else r) - l) (drop l s))"

definition substring :: "string \<Rightarrow> nat \<Rightarrow> string" where
  "substring s left = substring2 s left (length s)"

text \<open>
  \<^verbatim>\<open>String::c_str\<close> hands the buffer to a C function, which reads it up to the first
  zero byte.
\<close>

definition c_str :: "string \<Rightarrow> string" where
  "c_str s = takeWhile (\<lambda>c. c \<noteq> CHR 0x00) s"

text \<open>
  \<^verbatim>\<open>String::toInt\<close> is \<^verbatim>\<open>atol\<close> on the buffer: leading white space is skipped, an
  optional sign is read, then the longest run of decimal digits; no digits give 0. The
  result is a 32-bit \<^verbatim>\<open>long\<close> on this target, and \<^verbatim>\<open>strtol\<close> saturates at its bounds.
\<close>

definition isspace :: "char \<Rightarrow> bool" where
  "isspace c = (c = CHR '' '' \<or> (9 \<le> (of_char c :: nat) \<and> (of_char c :: nat) \<le> 13))"

definition isdigit :: "char \<Rightarrow> bool" where
  "isdigit c = (48 \<le> (of_char c :: nat) \<and> (of_char c :: nat) \<le> 57)"

definition digitVal :: "char \<Rightarrow> int" where
  "digitVal c = int (of_char c) - 48"

fun parseDigits :: "int \<Rightarrow> string \<Rightarrow> int" where
  "parseDigits acc [] = acc"
| "parseDigits acc (c # cs) =
     (if isdigit c then parseDigits (acc * 10 + digitVal c) cs else acc)"

definition LONG_MAX :: int where "LONG_MAX = 2147483647"
definition LONG_MIN :: int where "LONG_MIN = - 2147483648"

definition saturate :: "int \<Rightarrow> int" where
  "saturate v = (if v > LONG_MAX then LONG_MAX else if v < LONG_MIN then LONG_MIN else v)"

definition toInt :: "string \<Rightarrow> int" where
  "toInt s =
     (case dropWhile isspace s of
        [] \<Rightarrow> 0
      | c # cs \<Rightarrow>
          if c = CHR ''-'' then saturate (- parseDigits 0 cs)
          else if c = CHR ''+'' then saturate (parseDigits 0 cs)
          else saturate (parseDigits 0 (c # cs)))"

subsection \<open>State and environment\<close>

datatype FontMode = F_SMALL | F_MEDIUM | F_LARGE

text \<open>One text drawn into the frame buffer: the two coordinates and the string.\<close>

type_synonym draw = "int \<times> int \<times> string"

text \<open>
  The globals of the sketch. The 8-, 16- and 32-bit variables are words; the 16-bit ones are
  signed in the sketch and are read with \<open>sint\<close>. \<^verbatim>\<open>scroll_interval_ms\<close> is an
  \<^verbatim>\<open>int\<close> that only ever holds 0, 5 or a multiple of ten up to 100, and is kept as an
  integer. \<open>prefs_ssid\<close> and \<open>prefs_pass\<close> are the two keys of the preferences store,
  and \<open>oled\<close> is the frame last sent to the display.
\<close>

record state =
  msg :: string
  inbuf :: string
  tickerEnabled :: bool
  scrolling :: bool
  scroll_interval_ms :: int
  x :: "16 word"
  text_w :: "16 word"
  clockMode :: "8 word"
  currentFont :: FontMode
  manualClock :: bool
  manualEpochBase :: "32 word"
  manualSetMillis :: "32 word"
  manualDateKnown :: bool
  tzOffsetMinutes :: "16 word"
  prefs_ssid :: "string option"
  prefs_pass :: "string option"
  WIFI_SSID :: string
  WIFI_PASS :: string
  wifiOK :: bool
  t_now :: "32 word"
  t_nextFrame :: "32 word"
  t_nextScroll :: "32 word"
  t_nextNtpCheck :: "32 word"
  oled :: "draw list"

text \<open>
  What the hardware answers during one call: \<open>sysTime\<close> is \<^verbatim>\<open>time(nullptr)\<close>,
  \<open>millis\<close> the millisecond counter, \<open>getUTF8Width\<close> the pixel width the display
  library measures for a string in a font, and \<open>wifiStatus\<close> whether the radio reports
  a connection when the bounded wait of \<^verbatim>\<open>wifiConnect\<close> ends.
\<close>

record env =
  sysTime :: int
  millis :: "32 word"
  getUTF8Width :: "FontMode \<Rightarrow> string \<Rightarrow> 16 word"
  wifiStatus :: bool

definition W :: int where "W = 72"
definition H :: int where "H = 40"
definition GAP :: int where "GAP = 16"
definition BASE_TICKER :: int where "BASE_TICKER = 32"
definition BASE_STATIC :: int where "BASE_STATIC = 21"
definition FRAME_INTERVAL_MS :: "32 word" where "FRAME_INTERVAL_MS = 33"
definition CLOCK_FRAME_MS :: "32 word" where "CLOCK_FRAME_MS = 200"

text \<open>The initial values of the globals. The message holds six two-byte UTF-8 letters.\<close>

definition init_state :: state where
  "init_state =
     \<lparr> msg = ''Hei! '' @ [CHR 0xC3, CHR 0xA6] @ '' '' @ [CHR 0xC3, CHR 0xB8] @ '' ''
             @ [CHR 0xC3, CHR 0xA5] @ '' '' @ [CHR 0xC3, CHR 0x86] @ '' ''
             @ [CHR 0xC3, CHR 0x98] @ '' '' @ [CHR 0xC3, CHR 0x85],
       inbuf = [],
       tickerEnabled = True,
       scrolling = True,
       scroll_interval_ms = 100,
       x = 72,
       text_w = 0,
       clockMode = 0,
       currentFont = F_SMALL,
       manualClock = False,
       manualEpochBase = 0,
       manualSetMillis = 0,
       manualDateKnown = False,
       tzOffsetMinutes = 0,
       prefs_ssid = None,
       prefs_pass = None,
       WIFI_SSID = [],
       WIFI_PASS = [],
       wifiOK = False,
       t_now = 0,
       t_nextFrame = 0,
       t_nextScroll = 0,
       t_nextNtpCheck = 0,
       oled = [] \<rparr>"

subsection \<open>Helpers\<close>

text \<open>
  \<^verbatim>\<open>computeWidth\<close> selects the current font, measures the message and stores the width,
  read as a signed 16-bit value, raised to at least 1.
\<close>

definition computeWidth :: "env \<Rightarrow> state \<Rightarrow> state" where
  "computeWidth e s =
     (let w = getUTF8Width e (currentFont s) (msg s)
      in s\<lparr>text_w := (if sint w < 1 then 1 else w)\<rparr>)"

definition speedToInterval :: "int \<Rightarrow> int" where
  "speedToInterval n = (if n \<le> 0 then 0 else if n \<ge> 9 then 5 else 110 - n * 10)"

definition epochValid :: "int \<Rightarrow> bool" where
  "epochValid e = (e \<ge> 1700000000)"

subsection \<open>Wi-Fi and storage\<close>

text \<open>
  \<^verbatim>\<open>wifiConnect\<close> does nothing but clear \<open>wifiOK\<close> when no network name is stored.
  Otherwise it starts the radio, polls its status for at most eight seconds and stores
  whether it is connected; the environment gives that final status.
\<close>

definition wifiConnect :: "env \<Rightarrow> state \<Rightarrow> state" where
  "wifiConnect e s =
     (if WIFI_SSID s = [] then s\<lparr>wifiOK := False\<rparr>
      else s\<lparr>wifiOK := wifiStatus e\<rparr>)"

definition saveWifi :: "state \<Rightarrow> state" where
  "saveWifi s = s\<lparr>prefs_ssid := Some (WIFI_SSID s), prefs_pass := Some (WIFI_PASS s)\<rparr>"

subsection \<open>Commands\<close>

text \<open>
  The branches are tried in the order of the sketch and each one returns. In the
  \<^verbatim>\<open>ts/\<close> branch the remainder \<^verbatim>\<open>now % 86400\<close> is taken of a valid epoch only, which
  is positive, so truncating and flooring remainders agree; the casts to \<^verbatim>\<open>uint32_t\<close>
  are \<open>word_of_int\<close>.
\<close>

definition handleCommand :: "env \<Rightarrow> string \<Rightarrow> state \<Rightarrow> state" where
  "handleCommand e line s =
     (if startsWith line ''t/'' then
        (let c = (if length line > 2 then charAt line 2 else CHR ''0'')
         in if c = CHR ''1'' then s\<lparr>clockMode := 1\<rparr>
            else if c = CHR ''2'' then s\<lparr>clockMode := 2\<rparr>
            else s\<lparr>clockMode := 0\<rparr>)
      else if startsWith line ''tz/'' then
        (let n0 = toInt (substring line 3);
             n1 = (if n0 < - 12 then - 12 else n0);
             n2 = (if n1 > 14 then 14 else n1)
         in s\<lparr>tzOffsetMinutes := word_of_int (n2 * 60), clockMode := 0\<rparr>)
      else if startsWith line ''h/'' then
        (let c = charAt line 2;
             s1 = (if c = CHR ''1'' then s\<lparr>tickerEnabled := True\<rparr> else s);
             s2 = (if c = CHR ''0'' then s1\<lparr>tickerEnabled := False\<rparr> else s1)
         in s2\<lparr>clockMode := 0\<rparr>)
      else if startsWith line ''s/'' then
        (let n = toInt (substring line 2);
             s1 = (if n = 0 then s\<lparr>scrolling := False, scroll_interval_ms := 0\<rparr>
                   else if n \<ge> 1 \<and> n \<le> 9
                        then s\<lparr>scrolling := True, scroll_interval_ms := speedToInterval n\<rparr>
                   else s)
         in s1\<lparr>clockMode := 0\<rparr>)
      else if startsWith line ''f/'' then
        (let c = charAt line 2;
             s1 = (if c = CHR ''1'' then s\<lparr>currentFont := F_SMALL\<rparr>
                   else if c = CHR ''2'' then s\<lparr>currentFont := F_MEDIUM\<rparr>
                   else if c = CHR ''3'' then s\<lparr>currentFont := F_LARGE\<rparr>
                   else s)
         in (computeWidth e s1)\<lparr>clockMode := 0\<rparr>)
      else if startsWith line ''ts/'' \<and> length line \<ge> 11 then
        (let HH = toInt (substring2 line 3 5);
             MM = toInt (substring2 line 6 8);
             SS = toInt (substring2 line 9 11);
             s1 = (if HH \<ge> 0 \<and> HH < 24 \<and> MM \<ge> 0 \<and> MM < 60 \<and> SS \<ge> 0 \<and> SS < 60 then
                     (let now = sysTime e;
                          haveEpoch = epochValid now;
                          baseMidnight = (if haveEpoch then word_of_int (now - now mod 86400)
                                          else 0) :: 32 word
                      in s\<lparr>manualEpochBase := baseMidnight + word_of_int (HH * 3600 + MM * 60 + SS),
                           manualSetMillis := millis e,
                           manualClock := True,
                           manualDateKnown := haveEpoch\<rparr>)
                   else s)
         in s1\<lparr>clockMode := 0\<rparr>)
      else if startsWith line ''w/'' then
        (saveWifi (s\<lparr>WIFI_SSID := substring line 2\<rparr>))\<lparr>clockMode := 0\<rparr>
      else if startsWith line ''wp/'' then
        (saveWifi (s\<lparr>WIFI_PASS := substring line 3\<rparr>))\<lparr>clockMode := 0\<rparr>
      else if startsWith line ''wc/'' then
        (wifiConnect e s)\<lparr>clockMode := 0\<rparr>
      else if startsWith line ''wf/'' then
        s\<lparr>prefs_ssid := None, prefs_pass := None, WIFI_SSID := [], WIFI_PASS := [],
          wifiOK := False, clockMode := 0\<rparr>
      else
        (computeWidth e (s\<lparr>msg := line, x := word_of_int W\<rparr>))\<lparr>clockMode := 0\<rparr>)"

subsection \<open>Formatting and calendar fields\<close>

text \<open>Decimal digits of a natural number, as \<^verbatim>\<open>printf\<close> writes them.\<close>

definition digitChar :: "nat \<Rightarrow> char" where
  "digitChar d = ''0123456789'' ! d"

fun decimal :: "nat \<Rightarrow> string" where
  "decimal n = (if n < 10 then [digitChar n] else decimal (n div 10) @ [digitChar (n mod 10)])"

declare decimal.simps [simp del]

definition pad0 :: "nat \<Rightarrow> string \<Rightarrow> string" where
  "pad0 w ds = replicate (w - length ds) (CHR ''0'') @ ds"

text \<open>The conversion \<^verbatim>\<open>%0wd\<close>: zero padding to the width, the sign counted in it.\<close>

definition printf_0d :: "nat \<Rightarrow> int \<Rightarrow> string" where
  "printf_0d w v =
     (if v < 0 then CHR ''-'' # pad0 (w - 1) (decimal (nat (- v)))
      else pad0 w (decimal (nat v)))"

text \<open>
  \<^verbatim>\<open>two\<close> and \<^verbatim>\<open>four\<close> print into buffers of 3 and 5 bytes, so \<^verbatim>\<open>snprintf\<close> keeps
  at most 2 and 4 characters.
\<close>

definition two :: "int \<Rightarrow> string" where
  "two v = take 2 (printf_0d 2 v)"

definition four :: "int \<Rightarrow> string" where
  "four v = take 4 (printf_0d 4 v)"

record tm =
  tm_sec :: int
  tm_min :: int
  tm_hour :: int
  tm_mday :: int
  tm_mon :: int
  tm_year :: int

text \<open>
  \<^verbatim>\<open>gmtime_r\<close> of the C library: the proleptic Gregorian calendar fields of a count of
  seconds since 1970-01-01 00:00:00, months counted from 0 and years from 1900.
\<close>

definition gmtime_r :: "int \<Rightarrow> tm" where
  "gmtime_r t =
     (let days = t div 86400;
          rem = t mod 86400;
          z = days + 719468;
          era = z div 146097;
          doe = z - era * 146097;
          yoe = (doe - doe div 1460 + doe div 36524 - doe div 146096) div 365;
          y = yoe + era * 400;
          doy = doe - (365 * yoe + yoe div 4 - yoe div 100);
          mp = (5 * doy + 2) div 153;
          d = doy - (153 * mp + 2) div 5 + 1;
          m = (if mp < 10 then mp + 3 else mp - 9);
          yr = (if m \<le> 2 then y + 1 else y)
      in \<lparr> tm_sec = rem mod 60, tm_min = (rem div 60) mod 60, tm_hour = rem div 3600,
           tm_mday = d, tm_mon = m - 1, tm_year = yr - 1900 \<rparr>)"

subsection \<open>Time source\<close>

definition getEpochNow :: "env \<Rightarrow> state \<Rightarrow> int" where
  "getEpochNow e s =
     (let now = sysTime e
      in if epochValid now then now
         else if manualClock s then
           (let elapsed = (millis e - manualSetMillis s) div 1000
            in if manualEpochBase s = 0 then uint elapsed
               else uint (manualEpochBase s) + uint elapsed)
         else - 1)"

definition getBrokenDownWithTZ :: "env \<Rightarrow> state \<Rightarrow> tm option" where
  "getBrokenDownWithTZ e s =
     (let ep = getEpochNow e s
      in if ep < 0 then None
         else Some (gmtime_r (ep + sint (tzOffsetMinutes s) * 60)))"

definition getClockString :: "env \<Rightarrow> state \<Rightarrow> string" where
  "getClockString e s =
     (case getBrokenDownWithTZ e s of
        None \<Rightarrow> ''--:--:--''
      | Some tinfo \<Rightarrow>
          two (tm_hour tinfo) @ '':'' @ two (tm_min tinfo) @ '':'' @ two (tm_sec tinfo))"

definition getDateStringISO :: "env \<Rightarrow> state \<Rightarrow> string" where
  "getDateStringISO e s =
     (case getBrokenDownWithTZ e s of
        None \<Rightarrow> ''----------''
      | Some tinfo \<Rightarrow>
          four (tm_year tinfo + 1900) @ ''-'' @ two (tm_mon tinfo + 1) @ ''-''
            @ two (tm_mday tinfo))"

subsection \<open>Drawing\<close>

text \<open>C division of integers truncates towards zero.\<close>

definition cdiv :: "int \<Rightarrow> int \<Rightarrow> int" where
  "cdiv a b = sgn a * sgn b * (\<bar>a\<bar> div \<bar>b\<bar>)"

text \<open>
  A frame is the list of texts drawn into the cleared buffer before it is sent, each
  with the coordinates the sketch computes for it. The ticker and static frames draw
  \<^verbatim>\<open>msg.c_str()\<close>, the message up to its first zero byte.
\<close>

definition drawTickerFrame :: "state \<Rightarrow> state" where
  "drawTickerFrame s =
     s\<lparr>oled := [(sint (x s), BASE_TICKER, c_str (msg s)),
                (sint (x s) + sint (text_w s) + GAP, BASE_TICKER, c_str (msg s))]\<rparr>"

definition centred :: "int \<Rightarrow> int" where
  "centred w = (let x0 = cdiv (W - w) 2 in if x0 < 0 then 0 else x0)"

definition drawStaticFrame :: "state \<Rightarrow> state" where
  "drawStaticFrame s =
     s\<lparr>oled := [(centred (sint (text_w s)), BASE_STATIC, c_str (msg s))]\<rparr>"

definition drawClockFrame :: "env \<Rightarrow> 8 word \<Rightarrow> state \<Rightarrow> state" where
  "drawClockFrame e mode s =
     (let t = getClockString e s;
          w = getUTF8Width e F_LARGE t;
          baseline = (if mode = 1 then 26 else 20);
          timeDraw = (centred (sint w), baseline, t)
      in if mode = 2 then
           (let d = getDateStringISO e s;
                wd = getUTF8Width e F_SMALL d
            in s\<lparr>oled := [timeDraw, (centred (sint wd), 38, d)]\<rparr>)
         else s\<lparr>oled := [timeDraw]\<rparr>)"

subsection \<open>Serial input and the main loop\<close>

text \<open>
  \<^verbatim>\<open>handleSerial\<close> drains the bytes that are available; the second argument is that
  sequence of bytes.
\<close>

fun handleSerial :: "env \<Rightarrow> string \<Rightarrow> state \<Rightarrow> state" where
  "handleSerial e [] s = s"
| "handleSerial e (c # cs) s =
     handleSerial e cs
       (if c = CHR 0x0D then s
        else if c = CHR 0x0A then
          (if inbuf s \<noteq> [] then (handleCommand e (inbuf s) s)\<lparr>inbuf := []\<rparr> else s)
        else
          (let b = inbuf s @ [c]
           in s\<lparr>inbuf := (if length b > 300 then drop 100 b else b)\<rparr>))"

text \<open>
  The test every deadline of the loop uses: the difference of the two unsigned counters,
  read as a signed 32-bit value, is not negative.
\<close>

definition deadlineReached :: "32 word \<Rightarrow> 32 word \<Rightarrow> bool" where
  "deadlineReached now deadline = (0 \<le> sint (now - deadline))"

text \<open>One scroll step: one pixel to the left, back to the right edge past the gap.\<close>

definition scrollStep :: "state \<Rightarrow> state" where
  "scrollStep s =
     (let x1 = x s - 1;
          x2 = (if sint x1 < - (sint (text_w s) + GAP) then word_of_int W else x1)
      in s\<lparr>x := x2, t_nextScroll := t_nextScroll s + word_of_int (scroll_interval_ms s)\<rparr>)"

text \<open>
  One iteration of \<^verbatim>\<open>loop\<close>: \<open>tick\<close> is the reading of the millisecond counter at its
  start and \<open>input\<close> the bytes the serial port delivers during it.
\<close>

definition loop :: "32 word \<Rightarrow> string \<Rightarrow> env \<Rightarrow> state \<Rightarrow> state" where
  "loop tick input e s0 =
     (let s1 = handleSerial e input (s0\<lparr>t_now := tick\<rparr>);
          s2 = (if deadlineReached (t_now s1) (t_nextNtpCheck s1)
                then s1\<lparr>t_nextNtpCheck := t_nextNtpCheck s1 + 2000\<rparr> else s1)
      in if clockMode s2 = 1 \<or> clockMode s2 = 2 then
           (if deadlineReached (t_now s2) (t_nextFrame s2)
            then (drawClockFrame e (clockMode s2) s2)
                   \<lparr>t_nextFrame := t_nextFrame s2 + CLOCK_FRAME_MS\<rparr>
            else s2)
         else
           (let s3 = (if tickerEnabled s2 \<and> scrolling s2 \<and> scroll_interval_ms s2 > 0
                      then (if deadlineReached (t_now s2) (t_nextScroll s2)
                            then scrollStep s2 else s2)
                      else s2)
            in if deadlineReached (t_now s3) (t_nextFrame s3)
               then (if tickerEnabled s3 then drawTickerFrame s3 else drawStaticFrame s3)
                      \<lparr>t_nextFrame := t_nextFrame s3 + FRAME_INTERVAL_MS\<rparr>
               else s3))"

subsection \<open>Notions used to state the properties\<close>

text \<open>The decimal text of an integer, as a sender writes it after a command prefix.\<close>

definition intStr :: "int \<Rightarrow> string" where
  "intStr k = (if k < 0 then CHR ''-'' # decimal (nat (- k)) else decimal (nat k))"

text \<open>
  What \<^verbatim>\<open>toInt\<close> looks at for digits: the text after the leading white space and
  one optional sign.
\<close>

definition afterSign :: "string \<Rightarrow> string" where
  "afterSign p =
     (case dropWhile isspace p of
        [] \<Rightarrow> []
      | c # cs \<Rightarrow> if c = CHR ''-'' \<or> c = CHR ''+'' then cs else c # cs)"

definition clamp :: "int \<Rightarrow> int \<Rightarrow> int \<Rightarrow> int" where
  "clamp v lo hi = (if v < lo then lo else if v > hi then hi else v)"

text \<open>Consecutive iterations of the loop at the given ticks, with no serial input.\<close>

fun runLoop :: "32 word list \<Rightarrow> env \<Rightarrow> state \<Rightarrow> state" where
  "runLoop [] e s = s"
| "runLoop (t # ts) e s = runLoop ts e (loop t [] e s)"


text \<open>The fields that make up the ticker.\<close>

definition tickerState ::
  "state \<Rightarrow> string \<times> 16 word \<times> FontMode \<times> bool \<times> bool \<times> int \<times> 16 word" where
  "tickerState s =
     (msg s, text_w s, currentFont s, tickerEnabled s, scrolling s, scroll_interval_ms s, x s)"

text \<open>An environment for concrete runs: no network time, every glyph six pixels wide.\<close>

definition test_env :: env where
  "test_env = \<lparr> sysTime = 0, millis = 0,
                getUTF8Width = (\<lambda>f t. word_of_nat (6 * length t)), wifiStatus = False \<rparr>"

section \<open>Properties\<close>

subsection \<open>Decimal text and \<^verbatim>\<open>toInt\<close>\<close>

lemma digitChar_cases:
  "d < 10 \<Longrightarrow> digitChar d \<in> set ''0123456789''"
  unfolding digitChar_def by (rule nth_mem) simp

lemma isdigit_digitChar: "d < 10 \<Longrightarrow> isdigit (digitChar d)"
  using digitChar_cases [of d] by (auto simp: isdigit_def)

lemma digitVal_digitChar: "d < 10 \<Longrightarrow> digitVal (digitChar d) = int d"
proof -
  assume "d < 10"
  then have "d \<in> {0,1,2,3,4,5,6,7,8,9}" by auto
  then show ?thesis by (auto simp: digitVal_def digitChar_def)
qed

lemma digitChar_plain:
  "d < 10 \<Longrightarrow> \<not> isspace (digitChar d) \<and> digitChar d \<noteq> CHR ''-'' \<and> digitChar d \<noteq> CHR ''+''"
  using digitChar_cases [of d] by (auto simp: isspace_def)

lemma parseDigits_decimal:
  "parseDigits acc (decimal n @ r) = parseDigits (acc * 10 ^ length (decimal n) + int n) r"
proof (induction n arbitrary: acc r rule: decimal.induct)
  case (1 n)
  show ?case
  proof (cases "n < 10")
    case True
    then show ?thesis
      by (simp add: decimal.simps [of n] isdigit_digitChar digitVal_digitChar)
  next
    case False
    have d: "n mod 10 < 10" by simp
    have "parseDigits acc (decimal n @ r)
        = parseDigits acc (decimal (n div 10) @ (digitChar (n mod 10) # r))"
      using False by (simp add: decimal.simps [of n])
    also have "\<dots> = parseDigits (acc * 10 ^ length (decimal (n div 10)) + int (n div 10))
                       (digitChar (n mod 10) # r)"
      using "1.IH" [OF False] by simp
    also have "\<dots> = parseDigits ((acc * 10 ^ length (decimal (n div 10)) + int (n div 10)) * 10
                         + int (n mod 10)) r"
      using d by (simp add: isdigit_digitChar digitVal_digitChar)
    also have "(acc * 10 ^ length (decimal (n div 10)) + int (n div 10)) * 10 + int (n mod 10)
             = acc * 10 ^ length (decimal n) + int n"
      using False by (simp add: decimal.simps [of n] algebra_simps) presburger
    finally show ?thesis .
  qed
qed

lemma decimal_Cons: "\<exists>d cs. d < 10 \<and> decimal n = digitChar d # cs"
proof (induction n rule: decimal.induct)
  case (1 n)
  show ?case
  proof (cases "n < 10")
    case True
    then show ?thesis by (auto simp: decimal.simps [of n])
  next
    case False
    from "1.IH" [OF False] obtain d cs where "d < 10" "decimal (n div 10) = digitChar d # cs"
      by blast
    then show ?thesis using False by (auto simp: decimal.simps [of n])
  qed
qed

lemma toInt_decimal: "toInt (decimal n) = saturate (int n)"
proof -
  obtain d cs where d: "d < 10" and eq: "decimal n = digitChar d # cs"
    using decimal_Cons by blast
  have "parseDigits 0 (decimal n) = int n"
    using parseDigits_decimal [of 0 n "[]"] by simp
  then show ?thesis
    using digitChar_plain [OF d] by (simp add: toInt_def eq)
qed

lemma toInt_intStr: "toInt (intStr k) = saturate k"
proof (cases "k < 0")
  case True
  have "parseDigits 0 (decimal (nat (- k))) = int (nat (- k))"
    using parseDigits_decimal [of 0 "nat (- k)" "[]"] by simp
  then show ?thesis using True by (simp add: intStr_def toInt_def isspace_def)
next
  case False
  then show ?thesis by (simp add: intStr_def toInt_decimal)
qed

lemma substring_append: "substring (p @ a) (length p) = a"
  by (simp add: substring_def substring2_def Let_def)

subsection \<open>Single commands\<close>

lemmas toInt_eval =
  toInt_def isspace_def isdigit_def digitVal_def saturate_def LONG_MAX_def LONG_MIN_def

lemma startsWith_append: "startsWith (p @ a) p"
  by (simp add: startsWith_def)

lemma substring_2: "substring (a # b # p) 2 = p"
  by (simp add: substring_def substring2_def Let_def)

lemma substring_3: "substring (a # b # c # p) 3 = p"
  by (simp add: substring_def substring2_def Let_def)

lemma handleCommand_s:
  "handleCommand e (CHR ''s'' # CHR ''/'' # p) s =
     (let n = toInt p;
          s1 = (if n = 0 then s\<lparr>scrolling := False, scroll_interval_ms := 0\<rparr>
                else if n \<ge> 1 \<and> n \<le> 9
                     then s\<lparr>scrolling := True, scroll_interval_ms := speedToInterval n\<rparr>
                else s)
      in s1\<lparr>clockMode := 0\<rparr>)"
  by (simp add: handleCommand_def startsWith_def substring_2)

lemma handleCommand_tz:
  "handleCommand e (CHR ''t'' # CHR ''z'' # CHR ''/'' # p) s =
     s\<lparr>tzOffsetMinutes := word_of_int (clamp (toInt p) (- 12) 14 * 60), clockMode := 0\<rparr>"
  by (simp add: handleCommand_def startsWith_def clamp_def Let_def substring_3)

lemma sint_tz:
  assumes "- 12 \<le> k" and "k \<le> 14"
  shows "sint ((word_of_int k :: 16 word) * 60) = k * 60"
proof -
  have "(word_of_int k :: 16 word) * 60 = word_of_int (k * 60)" by simp
  then have "sint ((word_of_int k :: 16 word) * 60) = signed_take_bit 15 (k * 60)"
    by (simp only: sint_sbintrunc') simp
  also have "\<dots> = k * 60"
    using assms by (intro signed_take_bit_int_eq_self) simp_all
  finally show ?thesis .
qed

lemma clamp_range: "lo \<le> hi \<Longrightarrow> lo \<le> clamp v lo hi \<and> clamp v lo hi \<le> hi"
  by (simp add: clamp_def)

subsection \<open>The timers through a command and through the loop\<close>

lemmas handleCommand_parts =
  handleCommand_def Let_def computeWidth_def saveWifi_def wifiConnect_def

lemma handleCommand_timers:
  "t_now (handleCommand e l s) = t_now s"
  "t_nextFrame (handleCommand e l s) = t_nextFrame s"
  "t_nextScroll (handleCommand e l s) = t_nextScroll s"
  "t_nextNtpCheck (handleCommand e l s) = t_nextNtpCheck s"
     apply (simp add: handleCommand_parts if_distrib [where f = t_now]
      split del: if_split cong: if_cong)
    apply (simp add: handleCommand_parts if_distrib [where f = t_nextFrame]
      split del: if_split cong: if_cong)
   apply (simp add: handleCommand_parts if_distrib [where f = t_nextScroll]
      split del: if_split cong: if_cong)
  apply (simp add: handleCommand_parts if_distrib [where f = t_nextNtpCheck]
      split del: if_split cong: if_cong)
  done

lemma handleSerial_timers:
  "t_now (handleSerial e inp s) = t_now s \<and> t_nextFrame (handleSerial e inp s) = t_nextFrame s \<and>
   t_nextScroll (handleSerial e inp s) = t_nextScroll s \<and>
   t_nextNtpCheck (handleSerial e inp s) = t_nextNtpCheck s"
  by (induction inp arbitrary: s) (simp_all add: handleCommand_timers Let_def)

lemma loop_stages:
  assumes s1: "s1 = handleSerial e inp (s\<lparr>t_now := tick\<rparr>)"
    and s2: "s2 = (if deadlineReached tick (t_nextNtpCheck s)
                   then s1\<lparr>t_nextNtpCheck := t_nextNtpCheck s + 2000\<rparr> else s1)"
  shows "loop tick inp e s =
     (if clockMode s1 = 1 \<or> clockMode s1 = 2 then
        (if deadlineReached tick (t_nextFrame s)
         then (drawClockFrame e (clockMode s1) s2)\<lparr>t_nextFrame := t_nextFrame s + CLOCK_FRAME_MS\<rparr>
         else s2)
      else
        (let s3 = (if tickerEnabled s1 \<and> scrolling s1 \<and> scroll_interval_ms s1 > 0 \<and>
                      deadlineReached tick (t_nextScroll s)
                   then scrollStep s2 else s2)
         in if deadlineReached tick (t_nextFrame s)
            then (if tickerEnabled s1 then drawTickerFrame s3 else drawStaticFrame s3)
                   \<lparr>t_nextFrame := t_nextFrame s + FRAME_INTERVAL_MS\<rparr>
            else s3))"
proof -
  have t1: "t_now s1 = tick" "t_nextNtpCheck s1 = t_nextNtpCheck s"
    "t_nextFrame s1 = t_nextFrame s" "t_nextScroll s1 = t_nextScroll s"
    using handleSerial_timers [of e inp "s\<lparr>t_now := tick\<rparr>"] by (simp_all add: s1)
  have e1: "handleSerial e inp (s\<lparr>t_now := tick\<rparr>) = s1" by (simp add: s1)
  have e2: "(if deadlineReached (t_now s1) (t_nextNtpCheck s1)
             then s1\<lparr>t_nextNtpCheck := t_nextNtpCheck s1 + 2000\<rparr> else s1) = s2"
    by (simp add: s2 t1)
  have t2: "t_now s2 = tick" "t_nextFrame s2 = t_nextFrame s" "t_nextScroll s2 = t_nextScroll s"
    "clockMode s2 = clockMode s1" "tickerEnabled s2 = tickerEnabled s1"
    "scrolling s2 = scrolling s1" "scroll_interval_ms s2 = scroll_interval_ms s1"
    by (simp_all add: s2 t1)
  have t3: "t_now (scrollStep s2) = tick" "t_nextFrame (scrollStep s2) = t_nextFrame s"
    "tickerEnabled (scrollStep s2) = tickerEnabled s1"
    by (simp_all add: scrollStep_def Let_def t2)
  show ?thesis
    unfolding loop_def Let_def e1 e2
    by (simp add: t2 t3)
qed

lemma loop_probe:
  "t_nextNtpCheck (loop tick inp e s) =
     (if deadlineReached tick (t_nextNtpCheck s) then t_nextNtpCheck s + 2000
      else t_nextNtpCheck s)"
proof -
  have "t_nextNtpCheck (handleSerial e inp (s\<lparr>t_now := tick\<rparr>)) = t_nextNtpCheck s"
    using handleSerial_timers [of e inp "s\<lparr>t_now := tick\<rparr>"] by simp
  then show ?thesis
    by (simp add: loop_stages [OF refl refl] Let_def scrollStep_def drawClockFrame_def
        drawTickerFrame_def drawStaticFrame_def)
qed

lemma loop_frame:
  "t_nextFrame (loop tick inp e s) =
     (if deadlineReached tick (t_nextFrame s)
      then t_nextFrame s +
        (if clockMode (handleSerial e inp (s\<lparr>t_now := tick\<rparr>)) = 1 \<or>
            clockMode (handleSerial e inp (s\<lparr>t_now := tick\<rparr>)) = 2
         then CLOCK_FRAME_MS else FRAME_INTERVAL_MS)
      else t_nextFrame s)"
proof -
  have "t_nextFrame (handleSerial e inp (s\<lparr>t_now := tick\<rparr>)) = t_nextFrame s"
    using handleSerial_timers [of e inp "s\<lparr>t_now := tick\<rparr>"] by simp
  then show ?thesis
    by (simp add: loop_stages [OF refl refl] Let_def scrollStep_def)
qed

lemma loop_scroll:
  "t_nextScroll (loop tick inp e s) =
     (let s1 = handleSerial e inp (s\<lparr>t_now := tick\<rparr>)
      in if clockMode s1 \<noteq> 1 \<and> clockMode s1 \<noteq> 2 \<and> tickerEnabled s1 \<and> scrolling s1 \<and>
            scroll_interval_ms s1 > 0 \<and> deadlineReached tick (t_nextScroll s)
         then t_nextScroll s + word_of_int (scroll_interval_ms s1)
         else t_nextScroll s)"
proof -
  have "t_nextScroll (handleSerial e inp (s\<lparr>t_now := tick\<rparr>)) = t_nextScroll s"
    using handleSerial_timers [of e inp "s\<lparr>t_now := tick\<rparr>"] by simp
  then show ?thesis
    by (simp add: loop_stages [OF refl refl] Let_def scrollStep_def drawClockFrame_def
        drawTickerFrame_def drawStaticFrame_def)
qed

lemma sint_diff_of_int:
  assumes "- (2 ^ 31) \<le> a - b" and "a - b < 2 ^ 31"
  shows "sint ((word_of_int a :: 32 word) - word_of_int b) = a - b"
proof -
  have "(word_of_int a :: 32 word) - word_of_int b = word_of_int (a - b)" by simp
  then have "sint ((word_of_int a :: 32 word) - word_of_int b) = signed_take_bit 31 (a - b)"
    by (simp only: sint_sbintrunc') simp
  also have "\<dots> = a - b"
    using assms by (intro signed_take_bit_int_eq_self) simp_all
  finally show ?thesis .
qed

lemma handleCommand_t:
  "handleCommand e ''t/0'' s = s\<lparr>clockMode := 0\<rparr>"
  "handleCommand e ''t/1'' s = s\<lparr>clockMode := 1\<rparr>"
  "handleCommand e ''t/2'' s = s\<lparr>clockMode := 2\<rparr>"
  by (simp_all add: handleCommand_def startsWith_def charAt_def)

lemma loop_clock:
  assumes "clockMode s = 1 \<or> clockMode s = 2"
  shows "loop t [] e s =
     s\<lparr>t_now := t_now (loop t [] e s), t_nextNtpCheck := t_nextNtpCheck (loop t [] e s),
       t_nextFrame := t_nextFrame (loop t [] e s), oled := oled (loop t [] e s)\<rparr>"
  using assms
  by (simp add: loop_stages [OF refl refl] drawClockFrame_def Let_def)

lemma runLoop_clock:
  "clockMode s = 1 \<or> clockMode s = 2 \<Longrightarrow>
   runLoop ticks e s =
     s\<lparr>t_now := t_now (runLoop ticks e s), t_nextNtpCheck := t_nextNtpCheck (runLoop ticks e s),
       t_nextFrame := t_nextFrame (runLoop ticks e s), oled := oled (runLoop ticks e s)\<rparr>"
proof (induction ticks arbitrary: s)
  case Nil
  then show ?case by simp
next
  case (Cons t ticks)
  let ?s1 = "loop t [] e s"
  have eq: "?s1 = s\<lparr>t_now := t_now ?s1, t_nextNtpCheck := t_nextNtpCheck ?s1,
       t_nextFrame := t_nextFrame ?s1, oled := oled ?s1\<rparr>"
    by (rule loop_clock [OF Cons.prems])
  have "clockMode ?s1 = clockMode s"
    by (subst eq) simp
  with Cons.prems have cm: "clockMode ?s1 = 1 \<or> clockMode ?s1 = 2"
    by simp
  let ?r = "runLoop ticks e ?s1"
  have "?r = ?s1\<lparr>t_now := t_now ?r, t_nextNtpCheck := t_nextNtpCheck ?r,
       t_nextFrame := t_nextFrame ?r, oled := oled ?r\<rparr>"
    by (rule Cons.IH [OF cm])
  also have "\<dots> = s\<lparr>t_now := t_now ?r, t_nextNtpCheck := t_nextNtpCheck ?r,
       t_nextFrame := t_nextFrame ?r, oled := oled ?r\<rparr>"
    by (subst eq) simp
  finally show ?case by simp
qed






lemmas fmt_eval = two_def four_def printf_0d_def pad0_def decimal.simps digitChar_def

lemma test_env_width: "getUTF8Width test_env f t = word_of_nat (6 * length t)"
  by (simp add: test_env_def)

lemma ts_seed:
  "handleCommand test_env ''ts/09:05:07'' init_state =
     init_state\<lparr>manualEpochBase := 32707, manualSetMillis := 0, manualClock := True,
                manualDateKnown := False, clockMode := 0\<rparr>"
  by (simp add: handleCommand_def startsWith_def substring2_def toInt_eval Let_def
      test_env_def epochValid_def)

subsection \<open>Commands with any argument\<close>

lemma charAt_third: "charAt (a # b # p) 2 = charAt p 0"
  by (cases p) (simp_all add: charAt_def)

lemma handleCommand_t_any:
  "handleCommand e (CHR ''t'' # CHR ''/'' # p) s =
     s\<lparr>clockMode := (if charAt p 0 = CHR ''1'' then 1 else if charAt p 0 = CHR ''2'' then 2 else 0)\<rparr>"
  by (cases p) (simp_all add: handleCommand_def startsWith_def charAt_def)

lemma handleCommand_h_any:
  "handleCommand e (CHR ''h'' # CHR ''/'' # p) s =
     (if charAt p 0 = CHR ''1'' then s\<lparr>tickerEnabled := True, clockMode := 0\<rparr>
      else if charAt p 0 = CHR ''0'' then s\<lparr>tickerEnabled := False, clockMode := 0\<rparr>
      else s\<lparr>clockMode := 0\<rparr>)"
  by (simp add: handleCommand_def startsWith_def charAt_third)

lemma handleCommand_f_any:
  "handleCommand e (CHR ''f'' # CHR ''/'' # p) s =
     (computeWidth e
        (if charAt p 0 = CHR ''1'' then s\<lparr>currentFont := F_SMALL\<rparr>
         else if charAt p 0 = CHR ''2'' then s\<lparr>currentFont := F_MEDIUM\<rparr>
         else if charAt p 0 = CHR ''3'' then s\<lparr>currentFont := F_LARGE\<rparr>
         else s))\<lparr>clockMode := 0\<rparr>"
  by (simp add: handleCommand_def startsWith_def charAt_third)

lemma handleCommand_wc_any:
  "handleCommand e (CHR ''w'' # CHR ''c'' # CHR ''/'' # p) s = (wifiConnect e s)\<lparr>clockMode := 0\<rparr>"
  by (simp add: handleCommand_def startsWith_def)

lemma handleCommand_wf_any:
  "handleCommand e (CHR ''w'' # CHR ''f'' # CHR ''/'' # p) s =
     s\<lparr>prefs_ssid := None, prefs_pass := None, WIFI_SSID := [], WIFI_PASS := [],
       wifiOK := False, clockMode := 0\<rparr>"
  by (simp add: handleCommand_def startsWith_def)

lemma substring2_field:
  "l \<le> r \<Longrightarrow> r \<le> length s \<Longrightarrow> l < length s \<Longrightarrow> substring2 s l r = take (r - l) (drop l s)"
  by (simp add: substring2_def)

lemma handleCommand_ts_any:
  assumes "startsWith line ''ts/''" and "11 \<le> length line"
  shows "handleCommand e line s =
     (let HH = toInt (take 2 (drop 3 line));
          MM = toInt (take 2 (drop 6 line));
          SS = toInt (take 2 (drop 9 line))
      in if 0 \<le> HH \<and> HH < 24 \<and> 0 \<le> MM \<and> MM < 60 \<and> 0 \<le> SS \<and> SS < 60
         then s\<lparr>manualEpochBase :=
                  (if epochValid (sysTime e) then word_of_int (sysTime e - sysTime e mod 86400)
                   else 0) + word_of_int (HH * 3600 + MM * 60 + SS),
                manualSetMillis := millis e, manualClock := True,
                manualDateKnown := epochValid (sysTime e), clockMode := 0\<rparr>
         else s\<lparr>clockMode := 0\<rparr>)"
proof -
  from assms(1) obtain p where line: "line = CHR ''t'' # CHR ''s'' # CHR ''/'' # p"
    by (cases line; simp add: startsWith_def) (metis append_take_drop_id append_Cons append_Nil)
  have pre: "\<not> startsWith line ''t/''" "\<not> startsWith line ''tz/''" "\<not> startsWith line ''h/''"
    "\<not> startsWith line ''s/''" "\<not> startsWith line ''f/''"
    by (simp_all add: line startsWith_def)
  have f: "substring2 line 3 5 = take 2 (drop 3 line)"
    "substring2 line 6 8 = take 2 (drop 6 line)"
    "substring2 line 9 11 = take 2 (drop 9 line)"
    using assms(2) by (simp_all add: substring2_field)
  show ?thesis
    unfolding handleCommand_def f
    using assms pre by (simp add: Let_def)
qed

lemma toInt_skip_space:
  assumes "list_all isspace ws"
  shows "toInt (ws @ p) = toInt p"
proof -
  have "dropWhile isspace (ws @ p) = dropWhile isspace p"
    using assms by (induction ws) simp_all
  then show ?thesis by (simp add: toInt_def)
qed

lemma parseDigits_no_digit: "r = [] \<or> \<not> isdigit (hd r) \<Longrightarrow> parseDigits 0 r = 0"
  by (cases r) auto

lemma toInt_no_number:
  assumes "afterSign p = [] \<or> \<not> isdigit (hd (afterSign p))"
  shows "toInt p = 0"
proof (cases "dropWhile isspace p")
  case Nil
  show ?thesis unfolding toInt_def Nil by simp
next
  case (Cons c cs)
  show ?thesis
  proof (cases "c = CHR ''-'' \<or> c = CHR ''+''")
    case True
    with Cons assms have "cs = [] \<or> \<not> isdigit (hd cs)" by (auto simp: afterSign_def)
    then have "parseDigits 0 cs = 0" by (rule parseDigits_no_digit)
    with True show ?thesis
      unfolding toInt_def Cons by (auto simp: saturate_def LONG_MAX_def LONG_MIN_def)
  next
    case False
    with Cons assms have "\<not> isdigit c" by (auto simp: afterSign_def)
    with False show ?thesis
      unfolding toInt_def Cons by (simp add: saturate_def LONG_MAX_def LONG_MIN_def)
  qed
qed

lemma toInt_trailing:
  assumes "\<not> isdigit k"
  shows "toInt (intStr n @ k # r) = saturate n"
proof -
  have pd: "parseDigits 0 (decimal m @ k # r) = int m" for m
    using assms parseDigits_decimal [of 0 m "k # r"] by simp
  show ?thesis
  proof (cases "n < 0")
    case True
    then show ?thesis by (simp add: intStr_def toInt_def isspace_def pd)
  next
    case False
    obtain d cs where d: "d < 10" and eq: "decimal (nat n) = digitChar d # cs"
      using decimal_Cons by blast
    have "parseDigits 0 (digitChar d # cs @ k # r) = int (nat n)"
      using pd [of "nat n"] by (simp add: eq)
    then show ?thesis
      using False digitChar_plain [OF d] by (simp add: intStr_def toInt_def eq)
  qed
qed

subsection \<open>The claims\<close>

text \<open>
  C1. For every line that does not begin with \<^verbatim>\<open>t/\<close>, the clock display mode is Off
  (\<open>clockMode = 0\<close>) after \<^verbatim>\<open>handleCommand\<close>, whatever it was before: this covers
  every other prefix command and every plain-text line.
\<close>

theorem non_clock_command_forces_clock_off:
  "\<not> startsWith line ''t/'' \<Longrightarrow> clockMode (handleCommand e line s) = 0"
  by (simp add: handleCommand_def Let_def computeWidth_def saveWifi_def wifiConnect_def)

theorem non_clock_command_forces_clock_off_witness:
  "\<not> startsWith ''tz/5'' ''t/'' \<and>
   clockMode (handleCommand test_env ''tz/5'' (init_state\<lparr>clockMode := 2\<rparr>)) = 0"
  using non_clock_command_forces_clock_off
          [of "''tz/5''" test_env "init_state\<lparr>clockMode := 2\<rparr>"]
  by (simp add: startsWith_def)

text \<open>
  C2, as the code has it. For \<^verbatim>\<open>s/n\<close> with \<open>n\<close> from 1 to 9 the command enables scrolling; the
  interval is \<open>110 - 10 n\<close> milliseconds for \<open>n\<close> up to 8, which is the clamp of that
  value to 5..100, and 5 milliseconds for \<open>n = 9\<close>; \<^verbatim>\<open>s/0\<close> disables scrolling and
  sets the interval to 0.
\<close>

theorem speed_command_interval:
  "1 \<le> n \<Longrightarrow> n \<le> 9 \<Longrightarrow>
   scrolling (handleCommand e (''s/'' @ intStr n) s) \<and>
   scroll_interval_ms (handleCommand e (''s/'' @ intStr n) s)
     = (if n = 9 then 5 else 110 - 10 * n) \<and>
   (n \<le> 8 \<longrightarrow>
      scroll_interval_ms (handleCommand e (''s/'' @ intStr n) s) = clamp (110 - 10 * n) 5 100) \<and>
   \<not> scrolling (handleCommand e (''s/'' @ intStr 0) s) \<and>
   scroll_interval_ms (handleCommand e (''s/'' @ intStr 0) s) = 0"
  by (simp add: handleCommand_s toInt_intStr saturate_def LONG_MAX_def LONG_MIN_def
      speedToInterval_def clamp_def Let_def)

theorem speed_nine_is_not_the_clamp:
  "scroll_interval_ms (handleCommand test_env ''s/9'' init_state) \<noteq> clamp (110 - 10 * 9) 5 100"
  by (simp add: handleCommand_s toInt_eval speedToInterval_def clamp_def)

theorem speed_command_interval_witness:
  "(1::int) \<le> 3 \<and> (3::int) \<le> 9 \<and> intStr 3 = ''3'' \<and>
   scrolling (handleCommand test_env ''s/3'' (init_state\<lparr>scrolling := False\<rparr>)) \<and>
   scroll_interval_ms (handleCommand test_env ''s/3'' (init_state\<lparr>scrolling := False\<rparr>)) = 80"
  using speed_command_interval [of 3 test_env "init_state\<lparr>scrolling := False\<rparr>"]
  by (simp add: intStr_def decimal.simps digitChar_def)

text \<open>
  C3. The manual clock is seeded with \<^verbatim>\<open>ts/09:05:07\<close> while the system has no valid
  epoch, so the date is not known, and none is present when the strings are formatted. The
  time string is the time of day, but the date string is the calendar date of the small epoch
  value, 1970-01-01, and the frame of clock mode 2 draws it; the placeholder of ten dashes is
  not used. The last equation is the whole path: one loop iteration that receives the two
  lines \<^verbatim>\<open>ts/09:05:07\<close> and \<^verbatim>\<open>t/2\<close> sends that frame.
\<close>

theorem unknown_date_is_formatted_as_1970:
  "manualClock (handleCommand test_env ''ts/09:05:07'' init_state) \<and>
   \<not> manualDateKnown (handleCommand test_env ''ts/09:05:07'' init_state) \<and>
   \<not> epochValid (sysTime test_env) \<and>
   getClockString test_env (handleCommand test_env ''ts/09:05:07'' init_state) = ''09:05:07'' \<and>
   getDateStringISO test_env (handleCommand test_env ''ts/09:05:07'' init_state) = ''1970-01-01'' \<and>
   oled (drawClockFrame test_env 2 (handleCommand test_env ''ts/09:05:07'' init_state)) =
     [(12, 20, ''09:05:07''), (6, 38, ''1970-01-01'')] \<and>
   oled (loop 0 (''ts/09:05:07'' @ [CHR 0x0A] @ ''t/2'' @ [CHR 0x0A]) test_env init_state) =
     [(12, 20, ''09:05:07''), (6, 38, ''1970-01-01'')]"
proof -
  let ?s = "handleCommand test_env ''ts/09:05:07'' init_state"
  have ep: "getEpochNow test_env ?s = 32707"
    unfolding ts_seed by (simp add: getEpochNow_def epochValid_def test_env_def Let_def)
  have tz: "tzOffsetMinutes ?s = 0"
    unfolding ts_seed by (simp add: init_state_def)
  have bd: "getBrokenDownWithTZ test_env ?s = Some (gmtime_r 32707)"
    by (simp add: getBrokenDownWithTZ_def ep tz)
  have g: "gmtime_r 32707 = \<lparr> tm_sec = 7, tm_min = 5, tm_hour = 9, tm_mday = 1, tm_mon = 0,
                               tm_year = 70 \<rparr>"
    by code_simp
  have c: "getClockString test_env ?s = ''09:05:07''"
    by (simp add: getClockString_def bd g fmt_eval)
  have d: "getDateStringISO test_env ?s = ''1970-01-01''"
    by (simp add: getDateStringISO_def bd g fmt_eval)
  have o: "oled (drawClockFrame test_env 2 ?s) = [(12, 20, ''09:05:07''), (6, 38, ''1970-01-01'')]"
    by (simp add: drawClockFrame_def c d Let_def centred_def cdiv_def W_def test_env_width)
  have m: "manualClock ?s" "\<not> manualDateKnown ?s" unfolding ts_seed by simp_all
  have v: "\<not> epochValid (sysTime test_env)" by (simp add: epochValid_def test_env_def)
  have l: "oled (loop 0 (''ts/09:05:07'' @ [CHR 0x0A] @ ''t/2'' @ [CHR 0x0A]) test_env init_state) =
     [(12, 20, ''09:05:07''), (6, 38, ''1970-01-01'')]"
    by code_simp
  from m v c d o l show ?thesis by blast
qed

text \<open>
  C4, as the code has it. A line with a recognised prefix and an argument outside the
  grammar is not ignored: the command acts on what its parsers read, and the clock mode is
  set as for a well-formed line. \<^verbatim>\<open>t/\<close>, \<^verbatim>\<open>h/\<close> and \<^verbatim>\<open>f/\<close> look at the first
  character of the argument only; \<^verbatim>\<open>s/\<close> and \<^verbatim>\<open>tz/\<close> act on the value \<^verbatim>\<open>toInt\<close>
  reads; a \<^verbatim>\<open>ts/\<close> line of at least 11 characters reads the characters at 3-4, 6-7 and
  9-10 with \<^verbatim>\<open>toInt\<close>, does not look at the separators, seeds the manual clock when the
  three values are in range and otherwise only turns the clock mode off; \<^verbatim>\<open>wc/\<close> and
  \<^verbatim>\<open>wf/\<close> do not look at their argument. \<^verbatim>\<open>toInt\<close> skips leading white space, gives 0
  when no digit follows an optional sign, and ignores what follows the digits.
\<close>

theorem malformed_arguments_effect:
  "handleCommand e (''t/'' @ p) s =
     s\<lparr>clockMode := (if charAt p 0 = CHR ''1'' then 1
                      else if charAt p 0 = CHR ''2'' then 2 else 0)\<rparr> \<and>
   handleCommand e (''h/'' @ p) s =
     (if charAt p 0 = CHR ''1'' then s\<lparr>tickerEnabled := True, clockMode := 0\<rparr>
      else if charAt p 0 = CHR ''0'' then s\<lparr>tickerEnabled := False, clockMode := 0\<rparr>
      else s\<lparr>clockMode := 0\<rparr>) \<and>
   handleCommand e (''f/'' @ p) s =
     (computeWidth e
        (if charAt p 0 = CHR ''1'' then s\<lparr>currentFont := F_SMALL\<rparr>
         else if charAt p 0 = CHR ''2'' then s\<lparr>currentFont := F_MEDIUM\<rparr>
         else if charAt p 0 = CHR ''3'' then s\<lparr>currentFont := F_LARGE\<rparr>
         else s))\<lparr>clockMode := 0\<rparr> \<and>
   handleCommand e (''s/'' @ p) s =
     (if toInt p = 0 then s\<lparr>scrolling := False, scroll_interval_ms := 0, clockMode := 0\<rparr>
      else if 1 \<le> toInt p \<and> toInt p \<le> 9
           then s\<lparr>scrolling := True, scroll_interval_ms := speedToInterval (toInt p),
                  clockMode := 0\<rparr>
      else s\<lparr>clockMode := 0\<rparr>) \<and>
   handleCommand e (''tz/'' @ p) s =
     s\<lparr>tzOffsetMinutes := word_of_int (clamp (toInt p) (- 12) 14 * 60), clockMode := 0\<rparr> \<and>
   (startsWith line ''ts/'' \<and> 11 \<le> length line \<longrightarrow>
      handleCommand e line s =
        (let HH = toInt (take 2 (drop 3 line));
             MM = toInt (take 2 (drop 6 line));
             SS = toInt (take 2 (drop 9 line))
         in if 0 \<le> HH \<and> HH < 24 \<and> 0 \<le> MM \<and> MM < 60 \<and> 0 \<le> SS \<and> SS < 60
            then s\<lparr>manualEpochBase :=
                     (if epochValid (sysTime e)
                      then word_of_int (sysTime e - sysTime e mod 86400) else 0)
                     + word_of_int (HH * 3600 + MM * 60 + SS),
                   manualSetMillis := millis e, manualClock := True,
                   manualDateKnown := epochValid (sysTime e), clockMode := 0\<rparr>
            else s\<lparr>clockMode := 0\<rparr>)) \<and>
   handleCommand e (''wc/'' @ p) s = (wifiConnect e s)\<lparr>clockMode := 0\<rparr> \<and>
   handleCommand e (''wf/'' @ p) s =
     s\<lparr>prefs_ssid := None, prefs_pass := None, WIFI_SSID := [], WIFI_PASS := [],
       wifiOK := False, clockMode := 0\<rparr> \<and>
   (list_all isspace ws \<longrightarrow> toInt (ws @ p) = toInt p) \<and>
   (afterSign p = [] \<or> \<not> isdigit (hd (afterSign p)) \<longrightarrow> toInt p = 0) \<and>
   (\<not> isdigit k \<longrightarrow> toInt (intStr n @ k # r) = saturate n)"
proof -
  have t: "handleCommand e (''t/'' @ p) s =
     s\<lparr>clockMode := (if charAt p 0 = CHR ''1'' then 1
                      else if charAt p 0 = CHR ''2'' then 2 else 0)\<rparr>"
    using handleCommand_t_any [of e p s] by simp
  have h: "handleCommand e (''h/'' @ p) s =
     (if charAt p 0 = CHR ''1'' then s\<lparr>tickerEnabled := True, clockMode := 0\<rparr>
      else if charAt p 0 = CHR ''0'' then s\<lparr>tickerEnabled := False, clockMode := 0\<rparr>
      else s\<lparr>clockMode := 0\<rparr>)"
    using handleCommand_h_any [of e p s] by simp
  have f: "handleCommand e (''f/'' @ p) s =
     (computeWidth e
        (if charAt p 0 = CHR ''1'' then s\<lparr>currentFont := F_SMALL\<rparr>
         else if charAt p 0 = CHR ''2'' then s\<lparr>currentFont := F_MEDIUM\<rparr>
         else if charAt p 0 = CHR ''3'' then s\<lparr>currentFont := F_LARGE\<rparr>
         else s))\<lparr>clockMode := 0\<rparr>"
    using handleCommand_f_any [of e p s] by simp
  have sp: "handleCommand e (''s/'' @ p) s =
     (if toInt p = 0 then s\<lparr>scrolling := False, scroll_interval_ms := 0, clockMode := 0\<rparr>
      else if 1 \<le> toInt p \<and> toInt p \<le> 9
           then s\<lparr>scrolling := True, scroll_interval_ms := speedToInterval (toInt p),
                  clockMode := 0\<rparr>
      else s\<lparr>clockMode := 0\<rparr>)"
    using handleCommand_s [of e p s] by (simp add: Let_def)
  have tz: "handleCommand e (''tz/'' @ p) s =
     s\<lparr>tzOffsetMinutes := word_of_int (clamp (toInt p) (- 12) 14 * 60), clockMode := 0\<rparr>"
    using handleCommand_tz [of e p s] by simp
  have ts: "startsWith line ''ts/'' \<and> 11 \<le> length line \<longrightarrow>
      handleCommand e line s =
        (let HH = toInt (take 2 (drop 3 line));
             MM = toInt (take 2 (drop 6 line));
             SS = toInt (take 2 (drop 9 line))
         in if 0 \<le> HH \<and> HH < 24 \<and> 0 \<le> MM \<and> MM < 60 \<and> 0 \<le> SS \<and> SS < 60
            then s\<lparr>manualEpochBase :=
                     (if epochValid (sysTime e)
                      then word_of_int (sysTime e - sysTime e mod 86400) else 0)
                     + word_of_int (HH * 3600 + MM * 60 + SS),
                   manualSetMillis := millis e, manualClock := True,
                   manualDateKnown := epochValid (sysTime e), clockMode := 0\<rparr>
            else s\<lparr>clockMode := 0\<rparr>)"
    using handleCommand_ts_any [of line e s] by blast
  have wc: "handleCommand e (''wc/'' @ p) s = (wifiConnect e s)\<lparr>clockMode := 0\<rparr>"
    using handleCommand_wc_any [of e p s] by simp
  have wf: "handleCommand e (''wf/'' @ p) s =
     s\<lparr>prefs_ssid := None, prefs_pass := None, WIFI_SSID := [], WIFI_PASS := [],
       wifiOK := False, clockMode := 0\<rparr>"
    using handleCommand_wf_any [of e p s] by simp
  have i1: "list_all isspace ws \<longrightarrow> toInt (ws @ p) = toInt p"
    using toInt_skip_space by blast
  have i2: "afterSign p = [] \<or> \<not> isdigit (hd (afterSign p)) \<longrightarrow> toInt p = 0"
    using toInt_no_number by blast
  have i3: "\<not> isdigit k \<longrightarrow> toInt (intStr n @ k # r) = saturate n"
    using toInt_trailing by blast
  from t h f sp tz ts wc wf i1 i2 i3 show ?thesis by (intro conjI)
qed

theorem malformed_arguments_change_state:
  "handleCommand test_env ''s/x'' init_state \<noteq> init_state \<and>
   handleCommand test_env ''tz/abc'' (init_state\<lparr>tzOffsetMinutes := 120\<rparr>)
     \<noteq> init_state\<lparr>tzOffsetMinutes := 120\<rparr> \<and>
   handleCommand test_env ''h/9'' (init_state\<lparr>clockMode := 1\<rparr>) \<noteq> init_state\<lparr>clockMode := 1\<rparr> \<and>
   handleCommand test_env ''ts/ab:cd:ef''
       (init_state\<lparr>manualClock := True, manualEpochBase := 32707, manualSetMillis := 7\<rparr>)
     \<noteq> init_state\<lparr>manualClock := True, manualEpochBase := 32707, manualSetMillis := 7\<rparr> \<and>
   handleCommand test_env ''s/5x'' init_state \<noteq> init_state \<and>
   handleCommand test_env ''tz/3abc'' init_state \<noteq> init_state \<and>
   handleCommand test_env ''h/10'' (init_state\<lparr>tickerEnabled := False\<rparr>)
     \<noteq> init_state\<lparr>tickerEnabled := False\<rparr>"
proof -
  have "scrolling (handleCommand test_env ''s/x'' init_state) \<noteq> scrolling init_state"
    by (simp add: handleCommand_s toInt_eval init_state_def)
  then have a: "handleCommand test_env ''s/x'' init_state \<noteq> init_state" by metis
  have "tzOffsetMinutes (handleCommand test_env ''tz/abc'' (init_state\<lparr>tzOffsetMinutes := 120\<rparr>))
      \<noteq> tzOffsetMinutes (init_state\<lparr>tzOffsetMinutes := 120\<rparr>)"
    by (simp add: handleCommand_tz toInt_eval clamp_def)
  then have b: "handleCommand test_env ''tz/abc'' (init_state\<lparr>tzOffsetMinutes := 120\<rparr>)
     \<noteq> init_state\<lparr>tzOffsetMinutes := 120\<rparr>" by metis
  have "clockMode (handleCommand test_env ''h/9'' (init_state\<lparr>clockMode := 1\<rparr>))
      \<noteq> clockMode (init_state\<lparr>clockMode := 1\<rparr>)"
    by (simp add: handleCommand_h_any charAt_def)
  then have c: "handleCommand test_env ''h/9'' (init_state\<lparr>clockMode := 1\<rparr>)
      \<noteq> init_state\<lparr>clockMode := 1\<rparr>" by metis
  let ?seeded = "init_state\<lparr>manualClock := True, manualEpochBase := 32707, manualSetMillis := 7\<rparr>"
  have "manualEpochBase (handleCommand test_env ''ts/ab:cd:ef'' ?seeded) = 0"
    by (simp add: handleCommand_def startsWith_def substring2_def toInt_eval Let_def
        test_env_def epochValid_def)
  then have "manualEpochBase (handleCommand test_env ''ts/ab:cd:ef'' ?seeded)
      \<noteq> manualEpochBase ?seeded" by simp
  then have d: "handleCommand test_env ''ts/ab:cd:ef'' ?seeded \<noteq> ?seeded" by metis
  have "scroll_interval_ms (handleCommand test_env ''s/5x'' init_state)
      \<noteq> scroll_interval_ms init_state"
    by (simp add: handleCommand_s toInt_eval speedToInterval_def init_state_def)
  then have e: "handleCommand test_env ''s/5x'' init_state \<noteq> init_state" by metis
  have "tzOffsetMinutes (handleCommand test_env ''tz/3abc'' init_state)
      \<noteq> tzOffsetMinutes init_state"
    by (simp add: handleCommand_tz toInt_eval clamp_def init_state_def)
  then have f: "handleCommand test_env ''tz/3abc'' init_state \<noteq> init_state" by metis
  have "tickerEnabled (handleCommand test_env ''h/10'' (init_state\<lparr>tickerEnabled := False\<rparr>))
      \<noteq> tickerEnabled (init_state\<lparr>tickerEnabled := False\<rparr>)"
    by (simp add: handleCommand_h_any charAt_def)
  then have g: "handleCommand test_env ''h/10'' (init_state\<lparr>tickerEnabled := False\<rparr>)
      \<noteq> init_state\<lparr>tickerEnabled := False\<rparr>" by metis
  from a b c d e f g show ?thesis by (intro conjI)
qed

theorem malformed_arguments_effect_witness:
  "handleCommand test_env ''h/10'' (init_state\<lparr>tickerEnabled := False\<rparr>)
     = init_state\<lparr>tickerEnabled := True, clockMode := 0\<rparr> \<and>
   handleCommand test_env ''h/'' (init_state\<lparr>clockMode := 2\<rparr>) = init_state\<lparr>clockMode := 0\<rparr> \<and>
   handleCommand test_env ''s/5x'' init_state
     = init_state\<lparr>scrolling := True, scroll_interval_ms := 60, clockMode := 0\<rparr> \<and>
   handleCommand test_env ''s/12'' (init_state\<lparr>clockMode := 2\<rparr>) = init_state\<lparr>clockMode := 0\<rparr> \<and>
   handleCommand test_env ''s/'' init_state
     = init_state\<lparr>scrolling := False, scroll_interval_ms := 0, clockMode := 0\<rparr> \<and>
   handleCommand test_env ''tz/3abc'' init_state
     = init_state\<lparr>tzOffsetMinutes := 180, clockMode := 0\<rparr> \<and>
   startsWith ''ts/ab:cd:ef'' ''ts/'' \<and> 11 \<le> length ''ts/ab:cd:ef'' \<and>
   handleCommand test_env ''ts/ab:cd:ef''
       (init_state\<lparr>manualClock := True, manualEpochBase := 32707, manualSetMillis := 7\<rparr>)
     = init_state\<lparr>manualClock := True, manualEpochBase := 0, manualSetMillis := 0,
                  manualDateKnown := False, clockMode := 0\<rparr> \<and>
   handleCommand test_env ''ts/25:00:00'' (init_state\<lparr>clockMode := 2\<rparr>)
     = init_state\<lparr>clockMode := 0\<rparr> \<and>
   list_all isspace '' '' \<and> toInt '' x'' = toInt ''x'' \<and>
   afterSign ''-x'' = ''x'' \<and> \<not> isdigit (hd (afterSign ''-x'')) \<and> toInt ''-x'' = 0 \<and>
   \<not> isdigit CHR ''x'' \<and> toInt ''5x'' = 5"
proof -
  have v: "toInt ''10'' = 10" "toInt ''5x'' = 5" "toInt ''12'' = 12" "toInt [] = 0"
    "toInt ''3abc'' = 3" "toInt ''ab'' = 0" "toInt ''cd'' = 0" "toInt ''ef'' = 0"
    "toInt ''25'' = 25" "toInt ''00'' = 0"
    by (simp_all add: toInt_eval)
  have p: "startsWith ''ts/ab:cd:ef'' ''ts/''" "startsWith ''ts/25:00:00'' ''ts/''"
    by (simp_all add: startsWith_def)
  have x: "list_all isspace '' ''" "afterSign ''-x'' = ''x''" "\<not> isdigit CHR ''x''"
    by (simp_all add: isspace_def isdigit_def afterSign_def)
  have ev: "\<not> epochValid (sysTime test_env)" "millis test_env = 0"
    by (simp_all add: epochValid_def test_env_def)
  note a = malformed_arguments_effect [where e = test_env and p = "''10''" and s = "init_state\<lparr>tickerEnabled := False\<rparr>"
      and line = "''ts/ab:cd:ef''" and ws = "'' ''" and k = "CHR ''x''" and n = 5 and r = "[]"]
  note b = malformed_arguments_effect [where e = test_env and p = "[]" and s = "init_state\<lparr>clockMode := 2\<rparr>"
      and line = "''ts/25:00:00''" and ws = "'' ''" and k = "CHR ''x''" and n = 5 and r = "[]"]
  note c = malformed_arguments_effect [where e = test_env and p = "''5x''" and s = "init_state"
      and line = "''ts/ab:cd:ef''" and ws = "'' ''" and k = "CHR ''x''" and n = 5 and r = "[]"]
  note d = malformed_arguments_effect [where e = test_env and p = "''12''" and s = "init_state\<lparr>clockMode := 2\<rparr>"
      and line = "''ts/ab:cd:ef''" and ws = "'' ''" and k = "CHR ''x''" and n = 5 and r = "[]"]
  note e = malformed_arguments_effect [where e = test_env and p = "[]" and s = "init_state"
      and line = "''ts/ab:cd:ef''" and ws = "'' ''" and k = "CHR ''x''" and n = 5 and r = "[]"]
  note f = malformed_arguments_effect [where e = test_env and p = "''3abc''" and s = "init_state"
      and line = "''ts/ab:cd:ef''" and ws = "'' ''" and k = "CHR ''x''" and n = 5 and r = "[]"]
  note g = malformed_arguments_effect [where e = test_env and p = "''x''"
      and s = "init_state\<lparr>manualClock := True, manualEpochBase := 32707, manualSetMillis := 7\<rparr>"
      and line = "''ts/ab:cd:ef''" and ws = "'' ''" and k = "CHR ''x''" and n = 5 and r = "[]"]
  note h = malformed_arguments_effect [where e = test_env and p = "''-x''" and s = "init_state"
      and line = "''ts/ab:cd:ef''" and ws = "'' ''" and k = "CHR ''x''" and n = 5 and r = "[]"]
  have 1: "handleCommand test_env ''h/10'' (init_state\<lparr>tickerEnabled := False\<rparr>)
     = init_state\<lparr>tickerEnabled := True, clockMode := 0\<rparr>"
    using a by (simp add: charAt_def)
  have 2: "handleCommand test_env ''h/'' (init_state\<lparr>clockMode := 2\<rparr>) = init_state\<lparr>clockMode := 0\<rparr>"
    using b by (simp add: charAt_def)
  have 3: "handleCommand test_env ''s/5x'' init_state
     = init_state\<lparr>scrolling := True, scroll_interval_ms := 60, clockMode := 0\<rparr>"
    using c by (simp add: v speedToInterval_def)
  have 4: "handleCommand test_env ''s/12'' (init_state\<lparr>clockMode := 2\<rparr>) = init_state\<lparr>clockMode := 0\<rparr>"
    using d by (simp add: v)
  have 5: "handleCommand test_env ''s/'' init_state
     = init_state\<lparr>scrolling := False, scroll_interval_ms := 0, clockMode := 0\<rparr>"
    using e by (simp add: v)
  have 6: "handleCommand test_env ''tz/3abc'' init_state
     = init_state\<lparr>tzOffsetMinutes := 180, clockMode := 0\<rparr>"
    using f by (simp add: v clamp_def)
  have 7: "handleCommand test_env ''ts/ab:cd:ef''
       (init_state\<lparr>manualClock := True, manualEpochBase := 32707, manualSetMillis := 7\<rparr>)
     = init_state\<lparr>manualClock := True, manualEpochBase := 0, manualSetMillis := 0,
                  manualDateKnown := False, clockMode := 0\<rparr>"
    using g p by (simp add: v ev init_state_def)
  have 8: "handleCommand test_env ''ts/25:00:00'' (init_state\<lparr>clockMode := 2\<rparr>)
     = init_state\<lparr>clockMode := 0\<rparr>"
    using b p by (simp add: v)
  have 9: "toInt '' x'' = toInt ''x''"
    using g x by simp
  have 10: "toInt ''-x'' = 0"
    using h x by simp
  from 1 2 3 4 5 6 7 8 9 10 p x v show ?thesis by simp
qed

text \<open>
  C5. \<^verbatim>\<open>getEpochNow\<close> returns the system epoch when it is at least 1700000000; otherwise,
  with the manual clock active, the manual base plus the whole seconds of the unsigned 32-bit
  tick difference since the clock was set; otherwise -1. When it returns -1, the time string
  is \<^verbatim>\<open>--:--:--\<close> and the date string \<^verbatim>\<open>----------\<close>.
\<close>

theorem getEpochNow_priority:
  "getEpochNow e s =
     (if sysTime e \<ge> 1700000000 then sysTime e
      else if manualClock s
           then uint (manualEpochBase s) + uint (millis e - manualSetMillis s) div 1000
      else - 1) \<and>
   (getEpochNow e s = - 1 \<longrightarrow>
      getClockString e s = ''--:--:--'' \<and> getDateStringISO e s = ''----------'')"
proof -
  have d: "uint ((millis e - manualSetMillis s) div 1000) = uint (millis e - manualSetMillis s) div 1000"
    by (simp add: uint_div)
  have a: "getEpochNow e s =
     (if sysTime e \<ge> 1700000000 then sysTime e
      else if manualClock s
           then uint (manualEpochBase s) + uint (millis e - manualSetMillis s) div 1000
      else - 1)"
    by (simp add: getEpochNow_def epochValid_def Let_def d)
  have b: "getEpochNow e s = - 1 \<Longrightarrow>
      getClockString e s = ''--:--:--'' \<and> getDateStringISO e s = ''----------''"
    by (simp add: getClockString_def getDateStringISO_def getBrokenDownWithTZ_def)
  from a b show ?thesis by blast
qed

theorem getEpochNow_priority_witness:
  "getEpochNow test_env init_state = - 1 \<and>
   getClockString test_env init_state = ''--:--:--'' \<and>
   getDateStringISO test_env init_state = ''----------''"
  using getEpochNow_priority [of test_env init_state] by (simp add: test_env_def init_state_def)



text \<open>
  C7. Every deadline test of the loop reads the difference of the tick and the deadline, both
  unsigned 32-bit counters, as a signed 32-bit value and compares it with 0. For two instants
  less than \<open>2^31\<close> milliseconds apart the test is true exactly when the deadline is not
  after the tick, whatever the counter has done in between.
\<close>

theorem deadline_test_wraparound_safe:
  "(\<bar>Tn - Td\<bar> < 2 ^ 31 \<longrightarrow>
      deadlineReached (word_of_int Tn) (word_of_int Td) = (Td \<le> Tn)) \<and>
   deadlineReached tick d = (0 \<le> sint (tick - d)) \<and>
   t_nextNtpCheck (loop tick inp e s) =
     (if 0 \<le> sint (tick - t_nextNtpCheck s) then t_nextNtpCheck s + 2000
      else t_nextNtpCheck s) \<and>
   t_nextFrame (loop tick inp e s) =
     (if 0 \<le> sint (tick - t_nextFrame s)
      then t_nextFrame s +
        (if clockMode (handleSerial e inp (s\<lparr>t_now := tick\<rparr>)) = 1 \<or>
            clockMode (handleSerial e inp (s\<lparr>t_now := tick\<rparr>)) = 2
         then 200 else 33)
      else t_nextFrame s) \<and>
   t_nextScroll (loop tick inp e s) =
     (let s1 = handleSerial e inp (s\<lparr>t_now := tick\<rparr>)
      in if clockMode s1 \<noteq> 1 \<and> clockMode s1 \<noteq> 2 \<and> tickerEnabled s1 \<and> scrolling s1 \<and>
            scroll_interval_ms s1 > 0 \<and> 0 \<le> sint (tick - t_nextScroll s)
         then t_nextScroll s + word_of_int (scroll_interval_ms s1)
         else t_nextScroll s)"
proof -
  have a: "deadlineReached (word_of_int Tn) (word_of_int Td) = (Td \<le> Tn)"
    if "\<bar>Tn - Td\<bar> < 2 ^ 31"
  proof -
    from that have "- (2 ^ 31) \<le> Tn - Td" "Tn - Td < 2 ^ 31" by linarith+
    then have "sint ((word_of_int Tn :: 32 word) - word_of_int Td) = Tn - Td"
      by (rule sint_diff_of_int)
    then show ?thesis by (simp add: deadlineReached_def)
  qed
  have b: "deadlineReached tick d = (0 \<le> sint (tick - d))"
    by (simp add: deadlineReached_def)
  show ?thesis
    using a loop_probe [of tick inp e s] loop_frame [of tick inp e s] loop_scroll [of tick inp e s]
    by (simp add: deadlineReached_def CLOCK_FRAME_MS_def FRAME_INTERVAL_MS_def)
qed

theorem deadline_test_wraparound_safe_witness:
  "\<bar>(4294967301::int) - 4294967286\<bar> < 2 ^ 31 \<and>
   deadlineReached (word_of_int 4294967301) (word_of_int 4294967286) \<and>
   (word_of_int 4294967301 :: 32 word) = 5 \<and>
   \<not> ((word_of_int 4294967286 :: 32 word) \<le> word_of_int 4294967301)"
  using deadline_test_wraparound_safe [of 4294967301 4294967286 0 0 "[]" test_env init_state]
  by simp

text \<open>
  C8. For \<^verbatim>\<open>tz/n\<close> with \<open>n\<close> from -12 to 14 the stored offset is \<open>60 n\<close> minutes; for
  \<open>n\<close> outside that range it is the clamped bound, -720 or 840; and after every line that
  begins with \<^verbatim>\<open>tz/\<close> the offset is a multiple of 60 between -720 and 840.
\<close>

theorem tz_command_offset:
  "(- 12 \<le> n \<and> n \<le> 14 \<longrightarrow>
      sint (tzOffsetMinutes (handleCommand e (''tz/'' @ intStr n) s)) = n * 60) \<and>
   (n < - 12 \<longrightarrow> sint (tzOffsetMinutes (handleCommand e (''tz/'' @ intStr n) s)) = - 720) \<and>
   (n > 14 \<longrightarrow> sint (tzOffsetMinutes (handleCommand e (''tz/'' @ intStr n) s)) = 840) \<and>
   (startsWith line ''tz/'' \<longrightarrow>
      60 dvd sint (tzOffsetMinutes (handleCommand e line s)) \<and>
      - 720 \<le> sint (tzOffsetMinutes (handleCommand e line s)) \<and>
      sint (tzOffsetMinutes (handleCommand e line s)) \<le> 840)"
proof -
  have tz: "sint (tzOffsetMinutes (handleCommand e (CHR ''t'' # CHR ''z'' # CHR ''/'' # p) s))
            = clamp (toInt p) (- 12) 14 * 60" for p
    using clamp_range [of "- 12" 14 "toInt p"] by (simp add: handleCommand_tz sint_tz)
  have a: "- 12 \<le> n \<and> n \<le> 14 \<longrightarrow>
      sint (tzOffsetMinutes (handleCommand e (''tz/'' @ intStr n) s)) = n * 60"
    by (simp add: tz toInt_intStr saturate_def LONG_MAX_def LONG_MIN_def clamp_def)
  have b: "n < - 12 \<longrightarrow> sint (tzOffsetMinutes (handleCommand e (''tz/'' @ intStr n) s)) = - 720"
    by (simp add: tz toInt_intStr saturate_def LONG_MAX_def LONG_MIN_def clamp_def)
  have c: "n > 14 \<longrightarrow> sint (tzOffsetMinutes (handleCommand e (''tz/'' @ intStr n) s)) = 840"
    by (simp add: tz toInt_intStr saturate_def LONG_MAX_def LONG_MIN_def clamp_def)
  have d: "60 dvd sint (tzOffsetMinutes (handleCommand e line s)) \<and>
      - 720 \<le> sint (tzOffsetMinutes (handleCommand e line s)) \<and>
      sint (tzOffsetMinutes (handleCommand e line s)) \<le> 840" if "startsWith line ''tz/''"
  proof -
    from that obtain p where line: "line = CHR ''t'' # CHR ''z'' # CHR ''/'' # p"
      by (cases line; simp add: startsWith_def) (metis append_take_drop_id append_Cons append_Nil)
    show ?thesis
      using clamp_range [of "- 12" 14 "toInt p"] unfolding line tz by simp
  qed
  from a b c d show ?thesis by blast
qed

theorem tz_command_offset_witness:
  "sint (tzOffsetMinutes (handleCommand test_env ''tz/-3'' init_state)) = - 180 \<and>
   sint (tzOffsetMinutes (handleCommand test_env ''tz/-20'' init_state)) = - 720 \<and>
   sint (tzOffsetMinutes (handleCommand test_env ''tz/99'' init_state)) = 840 \<and>
   startsWith ''tz/abc'' ''tz/'' \<and>
   60 dvd sint (tzOffsetMinutes (handleCommand test_env ''tz/abc'' init_state))"
  using tz_command_offset [of "- 3" test_env init_state "''tz/abc''"]
        tz_command_offset [of "- 20" test_env init_state "''tz/abc''"]
        tz_command_offset [of "99" test_env init_state "''tz/abc''"]
  by (simp add: intStr_def decimal.simps digitChar_def startsWith_def)

text \<open>
  C9. \<^verbatim>\<open>t/0\<close>, \<^verbatim>\<open>t/1\<close> and \<^verbatim>\<open>t/2\<close> change the clock mode and no other field. While
  the clock is displayed the loop leaves the ticker fields alone, and after \<^verbatim>\<open>t/0\<close> the
  state is the one before the clock was shown except for the current tick, the probe and
  frame deadlines and the frame buffer.
\<close>

theorem clock_commands_only_set_mode:
  assumes "line = ''t/1'' \<or> line = ''t/2''"
  shows
  "handleCommand e ''t/0'' s = s\<lparr>clockMode := 0\<rparr> \<and>
   handleCommand e ''t/1'' s = s\<lparr>clockMode := 1\<rparr> \<and>
   handleCommand e ''t/2'' s = s\<lparr>clockMode := 2\<rparr> \<and>
   tickerState (runLoop ticks e (handleCommand e line s)) = tickerState s \<and>
   (let r = handleCommand e ''t/0'' (runLoop ticks e (handleCommand e line s))
    in tickerState r = tickerState s \<and>
       r = s\<lparr>clockMode := 0, t_now := t_now r, t_nextNtpCheck := t_nextNtpCheck r,
             t_nextFrame := t_nextFrame r, oled := oled r\<rparr>)"
proof -
  let ?s1 = "handleCommand e line s"
  define m :: "8 word" where "m = (if line = ''t/1'' then 1 else 2)"
  have m: "m = 1 \<or> m = 2" by (simp add: m_def)
  have s1: "?s1 = s\<lparr>clockMode := m\<rparr>"
    using assms by (auto simp: m_def handleCommand_t)
  let ?r = "runLoop ticks e ?s1"
  have cm: "clockMode ?s1 = 1 \<or> clockMode ?s1 = 2" using m by (simp add: s1)
  have r: "?r = s\<lparr>clockMode := m, t_now := t_now ?r, t_nextNtpCheck := t_nextNtpCheck ?r,
       t_nextFrame := t_nextFrame ?r, oled := oled ?r\<rparr>"
    by (subst runLoop_clock [OF cm]) (simp add: s1)
  have t1: "tickerState ?r = tickerState s"
    by (subst r) (simp add: tickerState_def)
  let ?q = "handleCommand e ''t/0'' ?r"
  have q: "?q = ?r\<lparr>clockMode := 0\<rparr>" by (rule handleCommand_t)
  have q2: "?q = s\<lparr>clockMode := 0, t_now := t_now ?q, t_nextNtpCheck := t_nextNtpCheck ?q,
             t_nextFrame := t_nextFrame ?q, oled := oled ?q\<rparr>"
    unfolding q by (subst r) simp
  have t2: "tickerState ?q = tickerState s"
    unfolding q using t1 by (simp add: tickerState_def)
  show ?thesis
    using t1 t2 q2 by (simp add: handleCommand_t Let_def)
qed

theorem clock_commands_only_set_mode_witness:
  "tickerState (runLoop [0, 250] test_env (handleCommand test_env ''t/2'' init_state))
     = tickerState init_state \<and>
   clockMode (handleCommand test_env ''t/2'' init_state) = 2 \<and>
   clockMode (handleCommand test_env ''t/0''
     (runLoop [0, 250] test_env (handleCommand test_env ''t/2'' init_state))) = 0"
  using clock_commands_only_set_mode [of "''t/2''" test_env init_state "[0, 250]"]
  by (simp add: Let_def handleCommand_t)

text \<open>
  C10. A line that begins with \<^verbatim>\<open>ts/\<close> and has fewer than 11 characters is handled as
  plain text: the message becomes the whole line, the scroll position is reset to the screen
  width, the text width is measured again, the clock mode is Off, and nothing else changes, so
  the manual clock keeps its fields.
\<close>

theorem short_ts_line_is_plain_text:
  "startsWith line ''ts/'' \<Longrightarrow> length line < 11 \<Longrightarrow>
   handleCommand e line s =
     s\<lparr>msg := line, x := 72,
       text_w := (if sint (getUTF8Width e (currentFont s) line) < 1 then 1
                  else getUTF8Width e (currentFont s) line),
       clockMode := 0\<rparr>"
proof -
  assume a: "startsWith line ''ts/''" and b: "length line < 11"
  from a obtain p where line: "line = CHR ''t'' # CHR ''s'' # CHR ''/'' # p"
    by (cases line; simp add: startsWith_def) (metis append_take_drop_id append_Cons append_Nil)
  show ?thesis using b unfolding line
    by (simp add: handleCommand_def startsWith_def computeWidth_def W_def Let_def)
qed

theorem short_ts_line_is_plain_text_witness:
  "startsWith ''ts/9:05:07'' ''ts/'' \<and> length ''ts/9:05:07'' < 11 \<and>
   msg (handleCommand test_env ''ts/9:05:07'' init_state) = ''ts/9:05:07'' \<and>
   text_w (handleCommand test_env ''ts/9:05:07'' init_state) = 60 \<and>
   manualClock (handleCommand test_env ''ts/9:05:07'' init_state) = False"
proof -
  have a: "startsWith ''ts/9:05:07'' ''ts/''" by (simp add: startsWith_def)
  have b: "length ''ts/9:05:07'' < 11" by simp
  show ?thesis
    using a short_ts_line_is_plain_text [OF a b, of test_env init_state]
    by (simp add: test_env_def init_state_def)
qed

end
